theory Spec2Isabelle
  imports Complex_Main
begin

section \<open>Time values and the calendar of ECMAScript Date objects\<close>

text \<open>
  \<open>computeCompliance\<close> does all of its date arithmetic through the built-in \<open>Date\<close>
  object. A time value is a number of milliseconds since 1970-01-01T00:00:00Z; it is
  modelled as an \<open>int\<close>, and the time value \<open>NaN\<close> of an invalid Date as \<open>None\<close>.
  The operations below are the abstract operations of ECMA-262 (section "Date Objects")
  that \<open>new Date\<close>, \<open>getMonth\<close>, \<open>setMonth\<close>, \<open>getTime\<close> and \<open>toISOString\<close> are
  specified with.
\<close>

definition msPerDay :: int where
  "msPerDay = 86400000"

definition Day :: "int \<Rightarrow> int" where
  "Day t = t div msPerDay"

definition TimeWithinDay :: "int \<Rightarrow> int" where
  "TimeWithinDay t = t mod msPerDay"

definition DaysInYear :: "int \<Rightarrow> int" where
  "DaysInYear y =
     (if y mod 4 \<noteq> 0 then 365
      else if y mod 100 \<noteq> 0 then 366
      else if y mod 400 \<noteq> 0 then 365
      else 366)"

definition DayFromYear :: "int \<Rightarrow> int" where
  "DayFromYear y =
     365 * (y - 1970) + (y - 1969) div 4 - (y - 1901) div 100 + (y - 1601) div 400"

text \<open>
  \<open>YearFromTime t\<close> is the largest year \<open>y\<close> whose first day is not after \<open>t\<close>. It is
  computed by walking from an estimate to the year whose days contain day \<open>d\<close>.
\<close>

function year_containing :: "int \<Rightarrow> int \<Rightarrow> int" where
  "year_containing d y =
     (if d < DayFromYear y then year_containing d (y - 1)
      else if DayFromYear (y + 1) \<le> d then year_containing d (y + 1)
      else y)"
  by pat_completeness auto
termination
proof -
  have up: "DayFromYear z < DayFromYear (z + 1)" for z
  proof -
    have gen: "c1 \<le> c0 + 1 \<Longrightarrow> q0 \<le> q1 \<Longrightarrow> e0 \<le> e1 \<Longrightarrow>
        365 * (z - 1970) + q0 - c0 + e0 < 365 * (z + 1 - 1970) + q1 - c1 + e1"
      for c0 c1 q0 q1 e0 e1 :: int
      by simp
    have c: "(z + 1 - 1901) div 100 \<le> (z - 1901) div 100 + 1" by linarith
    have q: "(z - 1969) div 4 \<le> (z + 1 - 1969) div 4" by linarith
    have e: "(z - 1601) div 400 \<le> (z + 1 - 1601) div 400" by linarith
    show ?thesis unfolding DayFromYear_def by (rule gen[OF c q e])
  qed
  show ?thesis
  proof (relation "measure (\<lambda>(d, y).
      nat (if d < DayFromYear y then DayFromYear y - d
           else if DayFromYear (y + 1) \<le> d then d + 1 - DayFromYear (y + 1)
           else 0))")
    show "wf (measure (\<lambda>(d, y).
      nat (if d < DayFromYear y then DayFromYear y - d
           else if DayFromYear (y + 1) \<le> d then d + 1 - DayFromYear (y + 1)
           else 0)))"
      by simp
  next
    fix d y :: int
    assume "d < DayFromYear y"
    then show "((d, y - 1), (d, y)) \<in> measure (\<lambda>(d, y).
      nat (if d < DayFromYear y then DayFromYear y - d
           else if DayFromYear (y + 1) \<le> d then d + 1 - DayFromYear (y + 1)
           else 0))"
      using up[of "y - 1"] by simp
  next
    fix d y :: int
    assume "\<not> d < DayFromYear y" and "DayFromYear (y + 1) \<le> d"
    then show "((d, y + 1), (d, y)) \<in> measure (\<lambda>(d, y).
      nat (if d < DayFromYear y then DayFromYear y - d
           else if DayFromYear (y + 1) \<le> d then d + 1 - DayFromYear (y + 1)
           else 0))"
      using up[of "y + 1"] by simp
  qed
qed

definition YearFromTime :: "int \<Rightarrow> int" where
  "YearFromTime t = year_containing (Day t) (1970 + Day t div 365)"

definition InLeapYear :: "int \<Rightarrow> int" where
  "InLeapYear t = (if DaysInYear (YearFromTime t) = 366 then 1 else 0)"

definition DayWithinYear :: "int \<Rightarrow> int" where
  "DayWithinYear t = Day t - DayFromYear (YearFromTime t)"

definition MonthFromTime :: "int \<Rightarrow> int" where
  "MonthFromTime t =
     (let d = DayWithinYear t; l = InLeapYear t in
      if d < 31 then 0
      else if d < 59 + l then 1
      else if d < 90 + l then 2
      else if d < 120 + l then 3
      else if d < 151 + l then 4
      else if d < 181 + l then 5
      else if d < 212 + l then 6
      else if d < 243 + l then 7
      else if d < 273 + l then 8
      else if d < 304 + l then 9
      else if d < 334 + l then 10
      else 11)"

definition DateFromTime :: "int \<Rightarrow> int" where
  "DateFromTime t =
     (let d = DayWithinYear t; l = InLeapYear t; m = MonthFromTime t in
      if m = 0 then d + 1
      else if m = 1 then d - 30
      else if m = 2 then d - 58 - l
      else if m = 3 then d - 89 - l
      else if m = 4 then d - 119 - l
      else if m = 5 then d - 150 - l
      else if m = 6 then d - 180 - l
      else if m = 7 then d - 211 - l
      else if m = 8 then d - 242 - l
      else if m = 9 then d - 272 - l
      else if m = 10 then d - 303 - l
      else d - 333 - l)"

definition HourFromTime :: "int \<Rightarrow> int" where
  "HourFromTime t = (t div 3600000) mod 24"

definition MinFromTime :: "int \<Rightarrow> int" where
  "MinFromTime t = (t div 60000) mod 60"

definition SecFromTime :: "int \<Rightarrow> int" where
  "SecFromTime t = (t div 1000) mod 60"

definition msFromTime :: "int \<Rightarrow> int" where
  "msFromTime t = t mod 1000"

text \<open>
  \<open>DaysBeforeMonth y m\<close> is the day within year \<open>y\<close> on which month \<open>m\<close> (0 to 11)
  begins, and \<open>DaysInMonth y m\<close> the length of that month. \<open>MakeDay\<close> finds the day
  number of the first day of month \<open>month mod 12\<close> of year \<open>year + month div 12\<close> and
  adds \<open>date - 1\<close> to it, whatever \<open>date\<close> is: a day of month past the end of the
  month lands in the following month.
\<close>

definition DaysBeforeMonth :: "int \<Rightarrow> int \<Rightarrow> int" where
  "DaysBeforeMonth y m =
     (let l = (if DaysInYear y = 366 then 1 else 0) in
      if m = 0 then 0
      else if m = 1 then 31
      else if m = 2 then 59 + l
      else if m = 3 then 90 + l
      else if m = 4 then 120 + l
      else if m = 5 then 151 + l
      else if m = 6 then 181 + l
      else if m = 7 then 212 + l
      else if m = 8 then 243 + l
      else if m = 9 then 273 + l
      else if m = 10 then 304 + l
      else 334 + l)"


definition MakeDay :: "int \<Rightarrow> int \<Rightarrow> int \<Rightarrow> int" where
  "MakeDay year month date =
     (let ym = year + month div 12; mn = month mod 12
      in DayFromYear ym + DaysBeforeMonth ym mn + date - 1)"

definition MakeDate :: "int \<Rightarrow> int \<Rightarrow> int" where
  "MakeDate day time = day * msPerDay + time"

definition TimeClip :: "int \<Rightarrow> int option" where
  "TimeClip t = (if \<bar>t\<bar> > 8640000000000000 then None else Some t)"

text \<open>
  The local time zone is a parameter \<open>tza\<close>: \<open>tza t True\<close> is the offset of local time
  from UTC at the UTC time \<open>t\<close>, and \<open>tza t False\<close> the offset at the local time \<open>t\<close>
  (the operation LocalTZA of ECMA-262).
\<close>

type_synonym zone = "int \<Rightarrow> bool \<Rightarrow> int"

definition LocalTime :: "zone \<Rightarrow> int \<Rightarrow> int" where
  "LocalTime tza t = t + tza t True"

definition UTC :: "zone \<Rightarrow> int \<Rightarrow> int" where
  "UTC tza t = t - tza t False"

definition utc_zone :: zone where
  "utc_zone = (\<lambda>t isUTC. 0)"







section \<open>The Date object\<close>

text \<open>
  A Date object holds a time value, or \<open>NaN\<close> when it is an invalid Date.
  \<open>new Date(string)\<close> parses the string and clips the result; the parser \<open>Date.parse\<close>
  is a parameter of the model, \<open>None\<close> being its result \<open>NaN\<close> on a string that it
  cannot read.
\<close>

type_synonym Date = "int option"

datatype error = RangeError

definition Date_new :: "(string \<Rightarrow> int option) \<Rightarrow> string \<Rightarrow> Date" where
  "Date_new parse s = (case parse s of None \<Rightarrow> None | Some tv \<Rightarrow> TimeClip tv)"

definition getMonth :: "zone \<Rightarrow> Date \<Rightarrow> int option" where
  "getMonth tza d = (case d of None \<Rightarrow> None | Some t \<Rightarrow> Some (MonthFromTime (LocalTime tza t)))"

text \<open>
  \<open>setMonth(month)\<close> leaves an invalid Date invalid. Otherwise it rebuilds the local
  time from the local year, the given month and the local day of the month, keeping the
  time within the day, and stores the clipped UTC time. A month that is \<open>NaN\<close> makes
  the Date invalid.
\<close>

definition setMonth :: "zone \<Rightarrow> Date \<Rightarrow> int option \<Rightarrow> Date" where
  "setMonth tza d month =
     (case d of
        None \<Rightarrow> None
      | Some t0 \<Rightarrow>
          (case month of
             None \<Rightarrow> None
           | Some m \<Rightarrow>
               (let t = LocalTime tza t0;
                    newDate = MakeDate (MakeDay (YearFromTime t) m (DateFromTime t)) (TimeWithinDay t)
                in TimeClip (UTC tza newDate))))"

text \<open>
  Comparing two Dates with \<open><\<close> compares their time values; a comparison with \<open>NaN\<close>
  is false.
\<close>

definition Date_less :: "Date \<Rightarrow> Date \<Rightarrow> bool" where
  "Date_less a b = (case (a, b) of (Some x, Some y) \<Rightarrow> x < y | _ \<Rightarrow> False)"

definition digit_char :: "nat \<Rightarrow> char" where
  "digit_char n = ''0123456789'' ! (n mod 10)"

fun digits :: "nat \<Rightarrow> nat \<Rightarrow> string" where
  "digits 0 n = []"
| "digits (Suc w) n = digits w (n div 10) @ [digit_char n]"

definition year_string :: "int \<Rightarrow> string" where
  "year_string y =
     (if 0 \<le> y \<and> y \<le> 9999 then digits 4 (nat y)
      else (if y < 0 then ''-'' else ''+'') @ digits 6 (nat \<bar>y\<bar>))"

text \<open>
  \<open>toISOString\<close> throws a RangeError on an invalid Date and otherwise writes the UTC
  time as \<open>YYYY-MM-DDTHH:mm:ss.sssZ\<close>.
\<close>

definition isoString :: "int \<Rightarrow> string" where
  "isoString t =
     year_string (YearFromTime t) @ ''-'' @ digits 2 (nat (MonthFromTime t + 1)) @ ''-''
       @ digits 2 (nat (DateFromTime t)) @ ''T'' @ digits 2 (nat (HourFromTime t)) @ '':''
       @ digits 2 (nat (MinFromTime t)) @ '':'' @ digits 2 (nat (SecFromTime t)) @ ''.''
       @ digits 3 (nat (msFromTime t)) @ ''Z''"

definition toISOString :: "Date \<Rightarrow> error + string" where
  "toISOString d = (case d of None \<Rightarrow> Inl RangeError | Some t \<Rightarrow> Inr (isoString t))"

text \<open>
  \<open>Math.round x\<close> is the integer nearest to \<open>x\<close>, a tie going up. The quotient it is
  applied to is taken exactly, as a real number; the rounding of the quotient to a
  double, which the source adds, is not part of the model.
\<close>

definition Math_round :: "real \<Rightarrow> int" where
  "Math_round x = \<lfloor>x + 1 / 2\<rfloor>"

text \<open>
  An instance of the parser for the strings that the date input of the form and the
  seed projects supply: the date-only form \<open>YYYY-MM-DD\<close> of the ECMAScript date-time
  string format, read as midnight UTC, with a month from 01 to 12 and a day from 01 to
  31. On every other string this instance answers \<open>NaN\<close>.
\<close>

definition digit_value :: "char \<Rightarrow> int option" where
  "digit_value c =
     map_of [(CHR ''0'', 0), (CHR ''1'', 1), (CHR ''2'', 2), (CHR ''3'', 3), (CHR ''4'', 4),
             (CHR ''5'', 5), (CHR ''6'', 6), (CHR ''7'', 7), (CHR ''8'', 8), (CHR ''9'', 9)] c"

fun number_of_digits :: "int \<Rightarrow> string \<Rightarrow> int option" where
  "number_of_digits acc [] = Some acc"
| "number_of_digits acc (c # cs) =
     (case digit_value c of None \<Rightarrow> None | Some v \<Rightarrow> number_of_digits (10 * acc + v) cs)"

definition parse_date_only :: "string \<Rightarrow> int option" where
  "parse_date_only s =
     (case s of
        [y1, y2, y3, y4, h1, m1, m2, h2, d1, d2] \<Rightarrow>
          (if h1 = CHR ''-'' \<and> h2 = CHR ''-'' then
             (case (number_of_digits 0 [y1, y2, y3, y4], number_of_digits 0 [m1, m2],
                    number_of_digits 0 [d1, d2]) of
                (Some y, Some m, Some d) \<Rightarrow>
                  (if 1 \<le> m \<and> m \<le> 12 \<and> 1 \<le> d \<and> d \<le> 31
                   then Some (MakeDate (MakeDay y (m - 1) d) 0)
                   else None)
              | _ \<Rightarrow> None)
           else None)
      | _ \<Rightarrow> None)"

section \<open>Projects and their compliance\<close>

text \<open>
  \<open>ProjectType\<close> and \<open>CodeCycle\<close> are unions of string literals; at run time the two
  fields hold strings, and \<open>computeCompliance\<close> compares them with \<open>===\<close>.
\<close>

record Project =
  id' :: string
  label :: string
  unitId :: "string option"
  projectType :: string
  cycle :: string
  approvalDate :: string

datatype Status = Valid | Expiring | Expired | Compliant

record ProjectWithDerived = Project +
  expiresAt :: "string option"
  status :: Status
  monthsLeft :: "int option"

text \<open>The object literal \<open>{ ...p, expiresAt, monthsLeft, status }\<close>.\<close>

definition spread :: "Project \<Rightarrow> string option \<Rightarrow> int option \<Rightarrow> Status \<Rightarrow> ProjectWithDerived" where
  "spread p e m s =
     \<lparr>id' = id' p, label = label p, unitId = unitId p, projectType = projectType p,
      cycle = cycle p, approvalDate = approvalDate p,
      expiresAt = e, status = s, monthsLeft = m\<rparr>"

definition addMonths :: "zone \<Rightarrow> Date \<Rightarrow> int \<Rightarrow> Date" where
  "addMonths tza d months =
     (let dt = d in setMonth tza dt (map_option (\<lambda>m. m + months) (getMonth tza dt)))"

text \<open>
  \<open>computeCompliance\<close>, with the parser, the time zone and the reading \<open>clock\<close> of the
  system clock (the time value of \<open>new Date()\<close>) as parameters. The Date \<open>expires\<close> is
  invalid exactly when \<open>monthsLeft\<close> is \<open>NaN\<close>; then \<open>toISOString\<close> throws and nothing is
  returned.
\<close>

definition computeCompliance ::
    "(string \<Rightarrow> int option) \<Rightarrow> zone \<Rightarrow> int \<Rightarrow> Project \<Rightarrow> error + ProjectWithDerived" where
  "computeCompliance parse tza clock p =
     (if cycle p = ''post2026'' then Inr (spread p None None Compliant)
      else
        let base = Date_new parse (approvalDate p);
            months = (if projectType p = ''housing'' then 36 else 15);
            expires = addMonths tza base months;
            now = Some clock;
            monthsLeft' =
              (case expires of
                 None \<Rightarrow> None
               | Some e \<Rightarrow>
                   Some (max 0 (Math_round (real_of_int (e - clock) / (1000 * 60 * 60 * 24 * 30)))));
            status' =
              (if Date_less expires now then Expired
               else if (case monthsLeft' of None \<Rightarrow> False | Some m \<Rightarrow> m < 6) then Expiring
               else Valid)
        in case toISOString expires of
             Inl err \<Rightarrow> Inl err
           | Inr expiresAt' \<Rightarrow> Inr (spread p (Some expiresAt') monthsLeft' status'))"

text \<open>
  The Date \<open>expires\<close> that \<open>computeCompliance\<close> builds for a project that is not
  post-cutover.
\<close>

abbreviation expires :: "(string \<Rightarrow> int option) \<Rightarrow> zone \<Rightarrow> Project \<Rightarrow> Date" where
  "expires parse tza p \<equiv>
     addMonths tza (Date_new parse (approvalDate p)) (if projectType p = ''housing'' then 36 else 15)"

text \<open>The three projects that the application starts with.\<close>

definition p22 :: Project where
  "p22 = \<lparr>id' = ''p22'', label = ''2022 Plan'', unitId = None, projectType = ''housing'',
          cycle = ''pre2026'', approvalDate = ''2022-03-15''\<rparr>"

definition p25 :: Project where
  "p25 = \<lparr>id' = ''p25'', label = ''2025 Plan'', unitId = None, projectType = ''modular'',
          cycle = ''pre2026'', approvalDate = ''2025-01-10''\<rparr>"

definition p27 :: Project where
  "p27 = \<lparr>id' = ''p27'', label = ''2027 Plan'', unitId = None, projectType = ''housing'',
          cycle = ''post2026'', approvalDate = ''2027-02-01''\<rparr>"

text \<open>
  The order of risk in which the statuses are compared: valid, then expiring, then
  expired. The status compliant counts as valid, as it does in \<open>badgeTone\<close>.
\<close>

fun risk :: "Status \<Rightarrow> nat" where
  "risk Valid = 0"
| "risk Compliant = 0"
| "risk Expiring = 1"
| "risk Expired = 2"

section \<open>Facts about the calendar\<close>








































section \<open>What \<open>computeCompliance\<close> returns\<close>

text \<open>
  The quotient that \<open>Math.round\<close> is applied to has a positive integer divisor, so the
  rounded value is an integer division. A project that is not post-cutover gets a
  result exactly when its Date \<open>expires\<close> is valid.
\<close>

lemma Math_round_quot:
  assumes "0 < b"
  shows "Math_round (real_of_int a / real_of_int b) = (2 * a + b) div (2 * b)"
proof -
  have "real_of_int a / real_of_int b + 1 / 2 = real_of_int (2 * a + b) / real_of_int (2 * b)"
    using assms by (simp add: field_simps)
  then show ?thesis
    unfolding Math_round_def by (simp only: floor_divide_of_int_eq)
qed

lemma Math_round_month:
  "Math_round (real_of_int a / (1000 * 60 * 60 * 24 * 30)) = (2 * a + 2592000000) div 5184000000"
  using Math_round_quot[of 2592000000 a] by simp

lemma computeCompliance_valid:
  assumes "cycle p \<noteq> ''post2026''" and "expires parse tza p = Some e"
  shows "computeCompliance parse tza clock p =
           Inr (spread p (Some (isoString e))
                  (Some (max 0 ((2 * (e - clock) + 2592000000) div 5184000000)))
                  (if e < clock then Expired
                   else if max 0 ((2 * (e - clock) + 2592000000) div 5184000000) < 6 then Expiring
                   else Valid))"
proof -
  have "Math_round ((real_of_int e - real_of_int clock) / 2592000000)
          = (2 * (e - clock) + 2592000000) div 5184000000"
    using Math_round_month[of "e - clock"] by simp
  then show ?thesis
    using assms by (simp add: computeCompliance_def Let_def toISOString_def Date_less_def)
qed

lemma computeCompliance_invalid:
  assumes "cycle p \<noteq> ''post2026''" and "expires parse tza p = None"
  shows "computeCompliance parse tza clock p = Inl RangeError"
  using assms by (simp add: computeCompliance_def Let_def toISOString_def)

lemma month_quotient_eq:
  fixes a k :: int
  shows "(2 * a + 2592000000) div 5184000000 = k
           \<longleftrightarrow> 2592000000 * k - 1296000000 \<le> a \<and> a < 2592000000 * k + 1296000000"
proof -
  define q r where "q = (2 * a + 2592000000) div 5184000000"
    and "r = (2 * a + 2592000000) mod 5184000000"
  have "2 * a + 2592000000 = 5184000000 * q + r" and "0 \<le> r" and "r < 5184000000"
    by (simp_all add: q_def r_def)
  then have "q = k \<longleftrightarrow> 2592000000 * k - 1296000000 \<le> a \<and> a < 2592000000 * k + 1296000000"
    by auto
  then show ?thesis by (simp only: q_def)
qed

lemma month_quotient_less:
  fixes a k :: int
  shows "(2 * a + 2592000000) div 5184000000 < k \<longleftrightarrow> a < 2592000000 * k - 1296000000"
proof -
  define q where "q = (2 * a + 2592000000) div 5184000000"
  have "2592000000 * q - 1296000000 \<le> a \<and> a < 2592000000 * q + 1296000000"
    using month_quotient_eq[of a q] by (simp add: q_def)
  then have "q < k \<longleftrightarrow> a < 2592000000 * k - 1296000000"
    by auto
  then show ?thesis by (simp only: q_def)
qed

lemma month_quotient_mono:
  fixes a b :: int
  shows "a \<le> b \<Longrightarrow> (2 * a + 2592000000) div 5184000000 \<le> (2 * b + 2592000000) div 5184000000"
  by (rule zdiv_mono1) simp_all

lemma expires_p22: "expires parse_date_only utc_zone p22 = Some 1741996800000"
  by code_simp

section \<open>Post-cutover projects\<close>

text \<open>
  Claim C1. A project whose cycle is \<open>post2026\<close> is returned with status compliant and
  with neither \<open>expiresAt\<close> nor \<open>monthsLeft\<close>, whatever its approval date and its project
  type are, and whatever the parser, the time zone and the clock are: the approval date
  is not even parsed.
\<close>

theorem post2026_compliant:
  assumes "cycle p = ''post2026''"
  shows "\<exists>r. computeCompliance parse tza clock p = Inr r \<and> status r = Compliant
           \<and> expiresAt r = None \<and> monthsLeft r = None
           \<and> approvalDate r = approvalDate p \<and> projectType r = projectType p
           \<and> cycle r = cycle p"
  using assms by (simp add: computeCompliance_def spread_def)

theorem post2026_compliant_witness:
  "cycle p27 = ''post2026'' \<and>
   (\<exists>r. computeCompliance parse_date_only utc_zone 1717200000000 p27 = Inr r \<and> status r = Compliant
      \<and> expiresAt r = None \<and> monthsLeft r = None
      \<and> approvalDate r = approvalDate p27 \<and> projectType r = projectType p27
      \<and> cycle r = cycle p27)"
proof -
  have c: "cycle p27 = ''post2026''" by (simp add: p27_def)
  show ?thesis
    using c post2026_compliant [OF c, of parse_date_only utc_zone 1717200000000] by simp
qed

section \<open>Pre-cutover projects: the classification\<close>

text \<open>
  Claim C3. For a pre-cutover project whose Date \<open>expires\<close> is valid, with time value
  \<open>e\<close>, the result carries \<open>expiresAt\<close>, the ISO string of \<open>e\<close>, and \<open>monthsLeft\<close>, and
  its status is expired exactly when \<open>e\<close> is strictly before the clock; otherwise it is
  expiring exactly when \<open>monthsLeft < 6\<close>; otherwise it is valid.
\<close>

theorem classification_rule:
  assumes "cycle p = ''pre2026''" and "expires parse tza p = Some e"
  shows "\<exists>r m. computeCompliance parse tza clock p = Inr r
           \<and> expiresAt r = Some (isoString e) \<and> monthsLeft r = Some m
           \<and> (status r = Expired \<longleftrightarrow> e < clock)
           \<and> (status r = Expiring \<longleftrightarrow> \<not> e < clock \<and> m < 6)
           \<and> (status r = Valid \<longleftrightarrow> \<not> e < clock \<and> \<not> m < 6)"
proof -
  have "cycle p \<noteq> ''post2026''" using assms(1) by simp
  from computeCompliance_valid[OF this assms(2), of clock] show ?thesis
    by (simp add: spread_def)
qed

theorem classification_rule_witness:
  "cycle p22 = ''pre2026'' \<and> expires parse_date_only utc_zone p22 = Some 1741996800000 \<and>
   (\<exists>r m. computeCompliance parse_date_only utc_zone 1735689600000 p22 = Inr r
           \<and> expiresAt r = Some (isoString 1741996800000) \<and> monthsLeft r = Some m
           \<and> (status r = Expired \<longleftrightarrow> 1741996800000 < (1735689600000::int))
           \<and> (status r = Expiring \<longleftrightarrow> \<not> 1741996800000 < (1735689600000::int) \<and> m < 6)
           \<and> (status r = Valid \<longleftrightarrow> \<not> 1741996800000 < (1735689600000::int) \<and> \<not> m < 6))"
proof -
  have c: "cycle p22 = ''pre2026''" by (simp add: p22_def)
  show ?thesis
    using c expires_p22 classification_rule [OF c expires_p22, of 1735689600000] by simp
qed

text \<open>
  Claim C4. For a pre-cutover project, \<open>monthsLeft\<close> is the time from the clock to
  \<open>expires\<close>, in days, divided by 30 and rounded to the nearest integer, and not less
  than 0. It counts months of 30 days: it is 0 when less than 15 days are left (also
  when \<open>expires\<close> is past), and \<open>k > 0\<close> when at least \<open>30 k - 15\<close> and less than
  \<open>30 k + 15\<close> days are left.
\<close>

theorem monthsLeft_thirty_day_months:
  assumes "cycle p = ''pre2026''" and "expires parse tza p = Some e"
  shows "\<exists>r. computeCompliance parse tza clock p = Inr r
           \<and> monthsLeft r = Some (max 0 (round (real_of_int (e - clock) / real_of_int msPerDay / 30)))
           \<and> (monthsLeft r = Some 0 \<longleftrightarrow> e - clock < 15 * msPerDay)
           \<and> (\<forall>k>0. monthsLeft r = Some k
                  \<longleftrightarrow> (30 * k - 15) * msPerDay \<le> e - clock \<and> e - clock < (30 * k + 15) * msPerDay)"
proof -
  define q where "q = (2 * (e - clock) + 2592000000) div 5184000000"
  have "cycle p \<noteq> ''post2026''" using assms(1) by simp
  from computeCompliance_valid[OF this assms(2), of clock]
  have r: "computeCompliance parse tza clock p =
      Inr (spread p (Some (isoString e)) (Some (max 0 q))
             (if e < clock then Expired else if max 0 q < 6 then Expiring else Valid))"
    by (simp only: q_def)
  have "round (real_of_int (e - clock) / real_of_int msPerDay / 30)
          = Math_round (real_of_int (e - clock) / (1000 * 60 * 60 * 24 * 30))"
    by (simp add: round_def Math_round_def msPerDay_def)
  then have a: "round (real_of_int (e - clock) / real_of_int msPerDay / 30) = q"
    by (simp only: Math_round_month q_def)
  have lt: "q < 1 \<longleftrightarrow> e - clock < 1296000000"
    using month_quotient_less[of "e - clock" 1] by (simp add: q_def)
  have z: "max 0 q = 0 \<longleftrightarrow> e - clock < 15 * msPerDay"
    using lt by (auto simp add: msPerDay_def max_def)
  have eq: "q = k \<longleftrightarrow> 2592000000 * k - 1296000000 \<le> e - clock
                    \<and> e - clock < 2592000000 * k + 1296000000" for k
    using month_quotient_eq[of "e - clock" k] by (simp add: q_def)
  have k: "max 0 q = k
             \<longleftrightarrow> (30 * k - 15) * msPerDay \<le> e - clock \<and> e - clock < (30 * k + 15) * msPerDay"
    if "0 < k" for k
    using that eq[of k] by (auto simp add: msPerDay_def max_def algebra_simps)
  show ?thesis
    using r a z k by (simp add: spread_def)
qed

theorem monthsLeft_thirty_day_months_witness:
  "cycle p22 = ''pre2026'' \<and> expires parse_date_only utc_zone p22 = Some 1741996800000 \<and>
   (\<exists>r. computeCompliance parse_date_only utc_zone 1717200000000 p22 = Inr r
      \<and> monthsLeft r
          = Some (max 0 (round (real_of_int (1741996800000 - 1717200000000) / real_of_int msPerDay / 30)))
      \<and> (monthsLeft r = Some 0 \<longleftrightarrow> 1741996800000 - 1717200000000 < 15 * msPerDay)
      \<and> (\<forall>k>0. monthsLeft r = Some k
             \<longleftrightarrow> (30 * k - 15) * msPerDay \<le> 1741996800000 - 1717200000000
                 \<and> 1741996800000 - 1717200000000 < (30 * k + 15) * msPerDay))"
proof -
  have c: "cycle p22 = ''pre2026''" by (simp add: p22_def)
  show ?thesis
    using c expires_p22 monthsLeft_thirty_day_months [OF c expires_p22, of 1717200000000]
    by blast
qed

section \<open>Pre-cutover projects: the passing of time\<close>

text \<open>
  Claim C7. For a fixed project, a later reading of the clock never gives a status of
  lower risk, in the order valid, expiring, expired. A project either has a result at
  every time or at none: when the clock advances, a result is followed by a result and
  the RangeError of an invalid \<open>expires\<close> by the same error.
\<close>

theorem risk_never_regresses:
  assumes "clock1 \<le> clock2"
  shows "(\<exists>r1 r2. computeCompliance parse tza clock1 p = Inr r1
            \<and> computeCompliance parse tza clock2 p = Inr r2
            \<and> risk (status r1) \<le> risk (status r2))
         \<or> (computeCompliance parse tza clock1 p = Inl RangeError
            \<and> computeCompliance parse tza clock2 p = Inl RangeError)"
proof (cases "cycle p = ''post2026''")
  case True
  then show ?thesis by (simp add: computeCompliance_def)
next
  case pre: False
  show ?thesis
  proof (cases "expires parse tza p")
    case None
    then show ?thesis using pre by (simp add: computeCompliance_invalid)
  next
    case (Some e)
    define q1 where "q1 = (2 * (e - clock1) + 2592000000) div 5184000000"
    define q2 where "q2 = (2 * (e - clock2) + 2592000000) div 5184000000"
    have q: "q2 \<le> q1"
      unfolding q1_def q2_def using assms by (intro month_quotient_mono) simp
    have r1: "computeCompliance parse tza clock1 p =
      Inr (spread p (Some (isoString e)) (Some (max 0 q1))
             (if e < clock1 then Expired else if max 0 q1 < 6 then Expiring else Valid))"
      using computeCompliance_valid[OF pre Some, of clock1] by (simp only: q1_def)
    have r2: "computeCompliance parse tza clock2 p =
      Inr (spread p (Some (isoString e)) (Some (max 0 q2))
             (if e < clock2 then Expired else if max 0 q2 < 6 then Expiring else Valid))"
      using computeCompliance_valid[OF pre Some, of clock2] by (simp only: q2_def)
    show ?thesis
      unfolding r1 r2 using q assms by (simp add: spread_def)
  qed
qed

theorem risk_never_regresses_witness:
  "(1717200000000::int) \<le> 1735689600000 \<and>
   ((\<exists>r1 r2. computeCompliance parse_date_only utc_zone 1717200000000 p22 = Inr r1
            \<and> computeCompliance parse_date_only utc_zone 1735689600000 p22 = Inr r2
            \<and> risk (status r1) \<le> risk (status r2))
         \<or> (computeCompliance parse_date_only utc_zone 1717200000000 p22 = Inl RangeError
            \<and> computeCompliance parse_date_only utc_zone 1735689600000 p22 = Inl RangeError))"
proof -
  have c: "(1717200000000::int) \<le> 1735689600000" by simp
  show ?thesis
    using c risk_never_regresses [OF c, of parse_date_only utc_zone p22] by blast
qed

text \<open>
  Claim C9, as the code has it. The status of a pre-cutover project is expiring exactly
  when \<open>expires\<close> is not before the clock and less than 165 days (five and a half
  months of 30 days) after it, and valid exactly when \<open>expires\<close> is 165 days or more
  after the clock. So a project whose \<open>expires\<close> is six months or more after the clock
  is valid, and so is one whose \<open>expires\<close> is six months less a day after it.
\<close>

theorem expiring_window:
  assumes "cycle p = ''pre2026''" and "expires parse tza p = Some e"
  shows "\<exists>r. computeCompliance parse tza clock p = Inr r
           \<and> (status r = Expiring \<longleftrightarrow> clock \<le> e \<and> e - clock < 165 * msPerDay)
           \<and> (status r = Valid \<longleftrightarrow> 165 * msPerDay \<le> e - clock)"
proof -
  define q where "q = (2 * (e - clock) + 2592000000) div 5184000000"
  have "cycle p \<noteq> ''post2026''" using assms(1) by simp
  from computeCompliance_valid[OF this assms(2), of clock]
  have r: "computeCompliance parse tza clock p =
      Inr (spread p (Some (isoString e)) (Some (max 0 q))
             (if e < clock then Expired else if max 0 q < 6 then Expiring else Valid))"
    by (simp only: q_def)
  have lt: "q < 6 \<longleftrightarrow> e - clock < 14256000000"
    using month_quotient_less[of "e - clock" 6] by (simp add: q_def)
  show ?thesis
    unfolding r using lt by (auto simp add: spread_def msPerDay_def max_def)
qed

theorem expiring_window_witness:
  "cycle p22 = ''pre2026'' \<and> expires parse_date_only utc_zone p22 = Some 1741996800000 \<and>
   (\<exists>r. computeCompliance parse_date_only utc_zone 1727740800000 p22 = Inr r
      \<and> (status r = Expiring \<longleftrightarrow> 1727740800000 \<le> (1741996800000::int)
                                  \<and> 1741996800000 - 1727740800000 < 165 * msPerDay)
      \<and> (status r = Valid \<longleftrightarrow> 165 * msPerDay \<le> 1741996800000 - 1727740800000))"
proof -
  have c: "cycle p22 = ''pre2026''" by (simp add: p22_def)
  show ?thesis
    using c expires_p22 expiring_window [OF c expires_p22, of 1727740800000] by blast
qed

text \<open>
  Claim C9 as it is stated fails for the seed project \<open>p22\<close>, which expires at
  2025-03-15T00:00Z. At 2024-09-17T00:00Z the expiry is 179 days ahead, six months of
  30 days less a day; at 2024-09-16T00:00Z it is one day less than six calendar months
  ahead (six months after that day is 2025-03-16). At both times \<open>monthsLeft\<close> is 6 and
  the status is valid, not expiring.
\<close>

theorem six_months_less_a_day_counterexample:
  "parse_date_only ''2024-09-17'' = Some 1726531200000
   \<and> parse_date_only ''2024-09-16'' = Some 1726444800000
   \<and> expires parse_date_only utc_zone p22 = Some 1741996800000
   \<and> isoString 1741996800000 = ''2025-03-15T00:00:00.000Z''
   \<and> 1741996800000 - 1726531200000 = 179 * msPerDay
   \<and> 1741996800000 - 1726444800000 = 180 * msPerDay
   \<and> addMonths utc_zone (Some 1726444800000) 6 = Some (1741996800000 + msPerDay)
   \<and> computeCompliance parse_date_only utc_zone 1726531200000 p22
        = Inr (spread p22 (Some ''2025-03-15T00:00:00.000Z'') (Some 6) Valid)
   \<and> computeCompliance parse_date_only utc_zone 1726444800000 p22
        = Inr (spread p22 (Some ''2025-03-15T00:00:00.000Z'') (Some 6) Valid)"
  by code_simp

text \<open>
  Claim C10. A status of expiring can come with \<open>monthsLeft = 0\<close>: there are a
  pre-cutover project and a time strictly before its \<open>expires\<close>, less than 15 days
  before it, at which the result is expiring with no months left. The seed project
  \<open>p22\<close> at 2025-03-05T00:00Z, ten days before it expires, is one.
\<close>

theorem zero_months_left_not_expired:
  "\<exists>p clock e r. cycle p = ''pre2026'' \<and> expires parse_date_only utc_zone p = Some e
      \<and> clock < e \<and> e - clock < 15 * msPerDay
      \<and> computeCompliance parse_date_only utc_zone clock p = Inr r
      \<and> status r = Expiring \<and> monthsLeft r = Some 0"
proof -
  have "cycle p22 = ''pre2026'' \<and> expires parse_date_only utc_zone p22 = Some 1741996800000
      \<and> (1741132800000::int) < 1741996800000 \<and> 1741996800000 - 1741132800000 < 15 * msPerDay
      \<and> computeCompliance parse_date_only utc_zone 1741132800000 p22
           = Inr (spread p22 (Some ''2025-03-15T00:00:00.000Z'') (Some 0) Expiring)
      \<and> status (spread p22 (Some ''2025-03-15T00:00:00.000Z'') (Some 0) Expiring) = Expiring
      \<and> monthsLeft (spread p22 (Some ''2025-03-15T00:00:00.000Z'') (Some 0) Expiring) = Some 0"
    by code_simp
  then show ?thesis by blast
qed

section \<open>Pre-cutover projects: the expiry date\<close>


text \<open>
  One month after 2023-01-31 is 2023-03-03, the 31st day counted from the first of
  February; thirty days after 2023-01-31 is 2023-03-02.
\<close>

lemma month_rollover_example:
  "addMonths utc_zone (Date_new parse_date_only ''2023-01-31'') 1
     = Date_new parse_date_only ''2023-03-03''
   \<and> map_option (\<lambda>t. t + 30 * msPerDay) (Date_new parse_date_only ''2023-01-31'')
     = Date_new parse_date_only ''2023-03-02''"
  by code_simp




section \<open>Input that the types exclude\<close>

text \<open>
  Claim C5 as it is stated fails: a post-cutover project whose approval date is not a
  date is returned as compliant, and no error is raised.
\<close>

theorem unparseable_date_post2026_counterexample:
  "parse_date_only ''not a date'' = None
   \<and> computeCompliance parse_date_only utc_zone 1717200000000 (p27\<lparr>approvalDate := ''not a date''\<rparr>)
       = Inr (spread (p27\<lparr>approvalDate := ''not a date''\<rparr>) None None Compliant)"
  by code_simp

text \<open>
  Claim C5, as the code has it. When the approval date does not parse, a project that
  is not post-cutover gets no result: \<open>toISOString\<close> throws a RangeError on the invalid
  Date \<open>expires\<close>, so no status valid, expiring or expired is returned. A post-cutover
  project is returned as compliant, without \<open>expiresAt\<close> and \<open>monthsLeft\<close>; its approval
  date is never parsed.
\<close>

theorem unparseable_date:
  assumes "parse (approvalDate p) = None"
  shows "if cycle p = ''post2026''
         then \<exists>r. computeCompliance parse tza clock p = Inr r \<and> status r = Compliant
                  \<and> expiresAt r = None \<and> monthsLeft r = None
         else computeCompliance parse tza clock p = Inl RangeError"
proof (cases "cycle p = ''post2026''")
  case True
  then show ?thesis by (simp add: computeCompliance_def spread_def)
next
  case False
  have "expires parse tza p = None"
    using assms by (simp add: Date_new_def addMonths_def setMonth_def getMonth_def)
  then show ?thesis
    using False by (simp add: computeCompliance_invalid)
qed

theorem unparseable_date_witness:
  "parse_date_only (approvalDate (p22\<lparr>approvalDate := ''not a date''\<rparr>)) = None
   \<and> (if cycle (p22\<lparr>approvalDate := ''not a date''\<rparr>) = ''post2026''
      then \<exists>r. computeCompliance parse_date_only utc_zone 1717200000000
                   (p22\<lparr>approvalDate := ''not a date''\<rparr>) = Inr r
               \<and> status r = Compliant \<and> expiresAt r = None \<and> monthsLeft r = None
      else computeCompliance parse_date_only utc_zone 1717200000000
             (p22\<lparr>approvalDate := ''not a date''\<rparr>) = Inl RangeError)"
proof -
  have h: "parse_date_only (approvalDate (p22\<lparr>approvalDate := ''not a date''\<rparr>)) = None"
    by code_simp
  show ?thesis
    using h unparseable_date [where parse = parse_date_only
        and p = "p22\<lparr>approvalDate := ''not a date''\<rparr>"
        and tza = utc_zone and clock = 1717200000000, OF h]
    by blast
qed

text \<open>
  Claim C6 as it is stated fails: a project of the unknown type \<open>commercial\<close> is given
  the window of 15 months, and a project of the unknown cycle \<open>post2030\<close> is evaluated
  as a pre-cutover project; neither is rejected.
\<close>

theorem unknown_enum_value_counterexample:
  "computeCompliance parse_date_only utc_zone 1717200000000 (p25\<lparr>projectType := ''commercial''\<rparr>)
     = Inr (spread (p25\<lparr>projectType := ''commercial''\<rparr>)
              (Some ''2026-04-10T00:00:00.000Z'') (Some 23) Valid)
   \<and> computeCompliance parse_date_only utc_zone 1717200000000 (p27\<lparr>cycle := ''post2030''\<rparr>)
     = Inr (spread (p27\<lparr>cycle := ''post2030''\<rparr>)
              (Some ''2030-02-01T00:00:00.000Z'') (Some 69) Valid)"
  by code_simp

text \<open>
  Claim C6, as the code has it. \<open>computeCompliance\<close> compares the cycle with
  \<open>post2026\<close> and the project type with \<open>housing\<close> only, and rejects neither. Every
  project gets the \<open>expiresAt\<close>, the \<open>monthsLeft\<close> and the status, or the error of an
  invalid date, of the same project with \<open>pre2026\<close> in place of any cycle that is not
  \<open>post2026\<close> and with \<open>modular\<close> in place of any type that is not \<open>housing\<close>.
\<close>

theorem unknown_enum_values_default:
  "map_sum id (\<lambda>r. (expiresAt r, monthsLeft r, status r))
     (computeCompliance parse tza clock p)
   = map_sum id (\<lambda>r. (expiresAt r, monthsLeft r, status r))
       (computeCompliance parse tza clock
          (p\<lparr>projectType := (if projectType p = ''housing'' then ''housing'' else ''modular''),
             cycle := (if cycle p = ''post2026'' then ''post2026'' else ''pre2026'')\<rparr>))"
  by (simp add: computeCompliance_def Let_def spread_def split: sum.splits)

theorem unknown_enum_values_default_witness:
  "map_sum id (\<lambda>r. (expiresAt r, monthsLeft r, status r))
     (computeCompliance parse_date_only utc_zone 1717200000000 (p25\<lparr>projectType := ''commercial''\<rparr>))
   = map_sum id (\<lambda>r. (expiresAt r, monthsLeft r, status r))
       (computeCompliance parse_date_only utc_zone 1717200000000
          ((p25\<lparr>projectType := ''commercial''\<rparr>)
             \<lparr>projectType := (if projectType (p25\<lparr>projectType := ''commercial''\<rparr>) = ''housing''
                              then ''housing'' else ''modular''),
              cycle := (if cycle (p25\<lparr>projectType := ''commercial''\<rparr>) = ''post2026''
                        then ''post2026'' else ''pre2026'')\<rparr>))"
  by (rule unknown_enum_values_default)

section \<open>The worked examples\<close>








end
